theory Spec2Isabelle
  imports Complex_Main
begin

section \<open>Python values and text\<close>

text \<open>
  The program is one Python module, \<^verbatim>\<open>main.py\<close>: a pricing function
  \<^verbatim>\<open>order_pizza\<close> and an interactive loop \<^verbatim>\<open>main\<close> that calls it with keyword
  arguments decoded from JSON. A Python \<^verbatim>\<open>str\<close> is modelled as a \<open>string\<close> whose
  characters are the code points below 256; a value decoded by \<^verbatim>\<open>json.loads\<close> is a
  \<open>pyval\<close>. A JSON object keeps its pairs in document order; the Python dict built from it
  keeps the last value of a repeated key.
\<close>

datatype pyval =
    PNone
  | PBool bool
  | PInt int
  | PFloat rat
  | PStr string
  | PList "pyval list"
  | PDict "(string \<times> pyval) list"

datatype exn = TypeError | AttributeError | EOFError | RecursionError | ValueError

text \<open>
  \<^verbatim>\<open>str.lower()\<close> on code points below 256: the upper-case letters are A to Z and the
  Latin-1 capitals 0xC0 to 0xDE other than the multiplication sign 0xD7; each maps to the
  code point 32 above it, every other character is kept.
\<close>

definition is_upper :: "char \<Rightarrow> bool" where
  "is_upper c =
     (let n = (of_char c :: nat)
      in (65 \<le> n \<and> n \<le> 90) \<or> (192 \<le> n \<and> n \<le> 222 \<and> n \<noteq> 215))"

definition lower_char :: "char \<Rightarrow> char" where
  "lower_char c = (if is_upper c then char_of ((of_char c :: nat) + 32) else c)"

definition lower :: "string \<Rightarrow> string" where
  "lower s = map lower_char s"

text \<open>
  \<^verbatim>\<open>str.strip()\<close> removes leading and trailing whitespace: below 256 these are the
  code points 9 to 13, 28 to 32, 0x85 and 0xA0.
\<close>

definition is_space :: "char \<Rightarrow> bool" where
  "is_space c =
     (let n = (of_char c :: nat)
      in (9 \<le> n \<and> n \<le> 13) \<or> (28 \<le> n \<and> n \<le> 32) \<or> n = 133 \<or> n = 160)"

definition strip :: "string \<Rightarrow> string" where
  "strip s = rev (dropWhile is_space (rev (dropWhile is_space s)))"

text \<open>
  \<^verbatim>\<open>len(x)\<close> is defined on strings, lists and dicts and raises \<^verbatim>\<open>TypeError\<close> on the
  other JSON values; \<^verbatim>\<open>x.lower()\<close> exists on strings only, any other JSON value raises
  \<^verbatim>\<open>AttributeError\<close>.
\<close>

fun py_len :: "pyval \<Rightarrow> exn + nat" where
  "py_len (PStr s) = Inr (length s)"
| "py_len (PList xs) = Inr (length xs)"
| "py_len (PDict kvs) = Inr (length (remdups (map fst kvs)))"
| "py_len _ = Inl TypeError"

fun py_lower :: "pyval \<Rightarrow> exn + string" where
  "py_lower (PStr s) = Inr (lower s)"
| "py_lower _ = Inl AttributeError"

section \<open>The pricing function\<close>

text \<open>
  Prices are Python floats. Every number \<^verbatim>\<open>order_pizza\<close> computes is an integer
  multiple of 1/4 (an integer base price plus 0.75 and 0.5 per item), and binary floating
  point represents and adds such numbers without error for any list a machine can hold, so
  the model computes in \<open>rat\<close>. \<^verbatim>\<open>round(x, 2)\<close> rounds the exact value to the nearest
  multiple of 1/100, a tie going to the even hundredth.
\<close>

definition round_half_even :: "rat \<Rightarrow> int" where
  "round_half_even x =
     (let f = \<lfloor>x\<rfloor>; d = x - of_int f
      in if d < 1 / 2 then f
         else if 1 / 2 < d then f + 1
         else if even f then f else f + 1)"

definition py_round2 :: "rat \<Rightarrow> rat" where
  "py_round2 x = of_int (round_half_even (x * 100)) / 100"

record order =
  order_size :: pyval
  order_crust :: pyval
  order_toppings :: pyval
  order_sauces :: pyval
  order_price :: rat

record result =
  res_status :: string
  res_order :: order
  res_eta :: string

definition base_price :: "(string \<times> int) list" where
  "base_price = [(''small'', 5), (''medium'', 7), (''large'', 9), (''extra large'', 11)]"

text \<open>\<^verbatim>\<open>base_price.get(key, 7)\<close>.\<close>

definition base_price_get :: "string \<Rightarrow> int" where
  "base_price_get key = (case map_of base_price key of Some p \<Rightarrow> p | None \<Rightarrow> 7)"

text \<open>
  \<^verbatim>\<open>order_pizza(size, crust, toppings, sauces)\<close>, lines 42 to 56. The arguments are
  whatever values the caller passes; \<^verbatim>\<open>size.lower()\<close> is evaluated first, then
  \<^verbatim>\<open>len(toppings)\<close>, then \<^verbatim>\<open>len(sauces)\<close>, and the first one that raises ends
  the call.
\<close>

definition order_pizza :: "pyval \<Rightarrow> pyval \<Rightarrow> pyval \<Rightarrow> pyval \<Rightarrow> exn + result" where
  "order_pizza sz crust tops sauces =
     (case py_lower sz of
        Inl e \<Rightarrow> Inl e
      | Inr key \<Rightarrow>
          (case py_len tops of
             Inl e \<Rightarrow> Inl e
           | Inr nt \<Rightarrow>
               (case py_len sauces of
                  Inl e \<Rightarrow> Inl e
                | Inr ns \<Rightarrow>
                    (let price = of_int (base_price_get key)
                                 + 3 / 4 * of_nat nt + 1 / 2 * of_nat ns
                     in Inr \<lparr>res_status = ''success'',
                             res_order = \<lparr>order_size = sz, order_crust = crust,
                                          order_toppings = tops, order_sauces = sauces,
                                          order_price = py_round2 price\<rparr>,
                             res_eta = ''20 minutes''\<rparr>))))"

text \<open>
  The same lines with the state a Python function can reach passed through explicitly:
  the module variables and the text printed so far. The body names only its four
  parameters and the local \<^verbatim>\<open>base_price\<close> (the parameters \<^verbatim>\<open>toppings\<close> and
  \<^verbatim>\<open>sauces\<close> hide the module lists of the same names), assigns no module variable,
  prints nothing, and calls only \<^verbatim>\<open>str.lower\<close>, \<^verbatim>\<open>dict.get\<close>, \<^verbatim>\<open>len\<close> and
  \<^verbatim>\<open>round\<close>, none of which changes an object. Each way out of the call, the three
  that raise and the \<^verbatim>\<open>return\<close>, is therefore left with the state the call found.
\<close>

record world =
  globals :: "(string \<times> pyval) list"
  stdout :: "string list"

definition order_pizza_call ::
  "world \<Rightarrow> pyval \<Rightarrow> pyval \<Rightarrow> pyval \<Rightarrow> pyval \<Rightarrow> (exn + result) \<times> world" where
  "order_pizza_call w sz crust tops sauces =
     (case py_lower sz of
        Inl e \<Rightarrow> (Inl e, w)
      | Inr key \<Rightarrow>
          (case py_len tops of
             Inl e \<Rightarrow> (Inl e, w)
           | Inr nt \<Rightarrow>
               (case py_len sauces of
                  Inl e \<Rightarrow> (Inl e, w)
                | Inr ns \<Rightarrow>
                    (let price = of_int (base_price_get key)
                                 + 3 / 4 * of_nat nt + 1 / 2 * of_nat ns
                     in (Inr \<lparr>res_status = ''success'',
                              res_order = \<lparr>order_size = sz, order_crust = crust,
                                           order_toppings = tops, order_sauces = sauces,
                                           order_price = py_round2 price\<rparr>,
                              res_eta = ''20 minutes''\<rparr>, w)))))"

section \<open>Calling the pricing function with decoded arguments\<close>

text \<open>
  Line 149, \<^verbatim>\<open>order_pizza(**args)\<close>: \<^verbatim>\<open>args\<close> must be a mapping, each of its keys
  must be one of the four parameter names and each parameter must be given; otherwise the
  call raises \<^verbatim>\<open>TypeError\<close> before the body runs.
\<close>

definition dict_get :: "(string \<times> pyval) list \<Rightarrow> string \<Rightarrow> pyval option" where
  "dict_get kvs k = map_of (rev kvs) k"

definition params :: "string list" where
  "params = [''size'', ''crust'', ''toppings'', ''sauces'']"

definition call_order_pizza :: "pyval \<Rightarrow> exn + result" where
  "call_order_pizza args =
     (case args of
        PDict kvs \<Rightarrow>
          if \<not> list_all (\<lambda>k. k \<in> set params) (map fst kvs) then Inl TypeError
          else (case (dict_get kvs ''size'', dict_get kvs ''crust'',
                      dict_get kvs ''toppings'', dict_get kvs ''sauces'') of
                  (Some sz, Some crust, Some tops, Some sauces) \<Rightarrow>
                    order_pizza sz crust tops sauces
                | _ \<Rightarrow> Inl TypeError)
      | _ \<Rightarrow> Inl TypeError)"

section \<open>The session\<close>

text \<open>
  \<^verbatim>\<open>main()\<close>, lines 90 to 178, blocks at six places: the three \<^verbatim>\<open>input\<close> calls of
  the order loop (lines 119, 161, 166), the one that asks the name (line 92), and the two
  completion requests (line 98 through \<^verbatim>\<open>extract_name\<close>, line 126). The model is a
  step function: the program counter says where the program waits, an event is what the
  console or the completion API hands back there, and a step runs the code up to the next
  wait or to the end of \<^verbatim>\<open>main\<close>. The text of the prompts and the printing of the
  final summary (lines 170 to 178) are not modelled: \<open>SessionEnd\<close> is the arrival at
  line 170.
\<close>

datatype pc =
    AskName
  | ExtractName
  | OuterInput
  | Completion
  | InnerInput
  | AskAnother
  | SessionEnd
  | Returned
  | Raised exn

text \<open>
  The message of a negotiation reply, \<^verbatim>\<open>resp.choices[0].message\<close>: its text, if
  any, and its function call, if any. Of the function call the program reads only
  \<^verbatim>\<open>json.loads(msg.function_call.arguments)\<close>, so the field holds the outcome of that
  call: the value it returns; \<^verbatim>\<open>JSONDecodeError\<close>, which line 146 catches; or another
  exception, which nothing catches (\<^verbatim>\<open>json.loads\<close> raises \<^verbatim>\<open>RecursionError\<close> on
  arguments that open a thousand brackets, and a plain \<^verbatim>\<open>ValueError\<close> on an integer
  literal longer than the interpreter's digit limit).
\<close>

datatype loads =
    Parsed pyval
  | JSONDecodeError
  | LoadsRaised exn

record reply =
  content :: "string option"
  function_call :: "loads option"

datatype event =
    Line string
  | Eof
  | ApiError string
  | NameReply "string option"
  | Reply reply

text \<open>
  A transcript entry. The content of a function entry is \<^verbatim>\<open>json.dumps(result)\<close>;
  the model keeps the result itself.
\<close>

datatype message =
    SystemMsg string
  | UserMsg string
  | AssistantMsg string
  | FunctionMsg string result

datatype printed =
    Welcome
  | NoNameEntered
  | ExtractError
  | ProceedingWith string
  | UsingRaw string
  | Hi string
  | AiText string
  | ParseFailed
  | OrderPlaced string
  | PriceLine rat
  | ChatError string

record session =
  pc :: pc
  raw_name_input :: string
  name :: string
  messages :: "message list"
  orders :: "order list"
  running_total :: rat
  console :: "printed list"

definition system_prompt :: string where
  "system_prompt =
     ''You are a helpful pizza-ordering assistant. Ask the user questions and place ''
     @ ''their order by calling '' @ [CHR 0x27] @ ''order_pizza'' @ [CHR 0x27]
     @ '' function when ready.''"

text \<open>Line 91 has run; the other variables are not yet bound.\<close>

definition main_init :: session where
  "main_init = \<lparr>pc = AskName, raw_name_input = [], name = [], messages = [],
                 orders = [], running_total = 0, console = [Welcome]\<rparr>"

text \<open>Lines 109 to 116, once the name is settled.\<close>

definition start_order_loop :: "string \<Rightarrow> session \<Rightarrow> session" where
  "start_order_loop n s =
     s\<lparr>name := n, console := console s @ [Hi n], messages := [SystemMsg system_prompt],
       orders := [], running_total := 0, pc := OuterInput\<rparr>"

text \<open>
  Lines 105 to 107, then the start of the order loop: an empty name is replaced by the
  raw input.
\<close>

definition settle_name :: "string \<Rightarrow> session \<Rightarrow> session" where
  "settle_name n s =
     (if n = [] then
        start_order_loop (raw_name_input s)
          (s\<lparr>console := console s @ [UsingRaw (raw_name_input s)]\<rparr>)
      else start_order_loop n s)"

text \<open>
  Lines 97 to 103. \<^verbatim>\<open>extract_name\<close> raises when the request fails and when the reply
  has no text (\<^verbatim>\<open>None.strip()\<close>); \<^verbatim>\<open>main\<close> catches both and takes the raw
  input as the name. Otherwise the name is the reply, stripped.
\<close>

definition extract_failed :: "session \<Rightarrow> session" where
  "extract_failed s =
     settle_name (raw_name_input s)
       (s\<lparr>console := console s @ [ExtractError, ProceedingWith (raw_name_input s)]\<rparr>)"

definition extract_returned :: "string \<Rightarrow> session \<Rightarrow> session" where
  "extract_returned c s = settle_name (strip c) s"

text \<open>Lines 139 to 141.\<close>

definition show_text :: "reply \<Rightarrow> session \<Rightarrow> session" where
  "show_text m s =
     (case content m of
        Some c \<Rightarrow>
          if c \<noteq> [] then
            s\<lparr>console := console s @ [AiText c], messages := messages s @ [AssistantMsg c]\<rparr>
          else s
      | None \<Rightarrow> s)"

text \<open>Lines 150 to 159.\<close>

definition record_order :: "result \<Rightarrow> session \<Rightarrow> session" where
  "record_order r s =
     s\<lparr>console := console s @ [OrderPlaced (res_eta r), PriceLine (order_price (res_order r))],
       orders := orders s @ [res_order r],
       running_total := running_total s + order_price (res_order r),
       messages := messages s @ [FunctionMsg ''order_pizza'' r],
       pc := AskAnother\<rparr>"

text \<open>Lines 136 to 164, after a completion request returned \<open>m\<close>.\<close>

definition handle_reply :: "reply \<Rightarrow> session \<Rightarrow> session" where
  "handle_reply m s =
     (let s1 = show_text m s
      in case function_call m of
           None \<Rightarrow> s1\<lparr>pc := InnerInput\<rparr>
         | Some JSONDecodeError \<Rightarrow>
             s1\<lparr>console := console s1 @ [ParseFailed], pc := AskAnother\<rparr>
         | Some (LoadsRaised e) \<Rightarrow> s1\<lparr>pc := Raised e\<rparr>
         | Some (Parsed args) \<Rightarrow>
             (case call_order_pizza args of
                Inl e \<Rightarrow> s1\<lparr>pc := Raised e\<rparr>
              | Inr r \<Rightarrow> record_order r s1))"

text \<open>
  One step. \<open>None\<close>: the program does not wait for this kind of event at this place
  (or has ended).
\<close>

fun step :: "session \<Rightarrow> event \<Rightarrow> session option" where
  "step s Eof =
     (if pc s \<in> {AskName, OuterInput, InnerInput, AskAnother}
      then Some (s\<lparr>pc := Raised EOFError\<rparr>) else None)"
| "step s (Line l) =
     (case pc s of
        AskName \<Rightarrow>
          (let raw = strip l
           in if raw = [] then Some (s\<lparr>console := console s @ [NoNameEntered], pc := Returned\<rparr>)
              else Some (s\<lparr>raw_name_input := raw, pc := ExtractName\<rparr>))
      | OuterInput \<Rightarrow>
          (let user_msg = strip l
           in if user_msg = [] then Some s
              else Some (s\<lparr>messages := messages s @ [UserMsg user_msg], pc := Completion\<rparr>))
      | InnerInput \<Rightarrow>
          (let user_msg = strip l
           in if user_msg = [] then Some (s\<lparr>pc := Completion\<rparr>)
              else Some (s\<lparr>messages := messages s @ [UserMsg user_msg], pc := Completion\<rparr>))
      | AskAnother \<Rightarrow>
          (let cont = lower (strip l)
           in if cont \<noteq> ''yes'' then Some (s\<lparr>pc := SessionEnd\<rparr>)
              else Some (s\<lparr>pc := OuterInput\<rparr>))
      | _ \<Rightarrow> None)"
| "step s (ApiError e) =
     (case pc s of
        ExtractName \<Rightarrow> Some (extract_failed s)
      | Completion \<Rightarrow> Some (s\<lparr>console := console s @ [ChatError e], pc := Returned\<rparr>)
      | _ \<Rightarrow> None)"
| "step s (NameReply c) =
     (case pc s of
        ExtractName \<Rightarrow>
          (case c of None \<Rightarrow> Some (extract_failed s) | Some t \<Rightarrow> Some (extract_returned t s))
      | _ \<Rightarrow> None)"
| "step s (Reply m) =
     (case pc s of
        Completion \<Rightarrow> Some (handle_reply m s)
      | _ \<Rightarrow> None)"

fun run :: "session \<Rightarrow> event list \<Rightarrow> session option" where
  "run s [] = Some s"
| "run s (e # es) = (case step s e of None \<Rightarrow> None | Some s' \<Rightarrow> run s' es)"

text \<open>
  The orders a sequence of events places, read off the events alone: each negotiation
  reply whose function-call arguments decode and whose call returns contributes the order
  of that result, in the order of the replies.
\<close>

fun placed_orders :: "event list \<Rightarrow> order list" where
  "placed_orders [] = []"
| "placed_orders (Reply m # es) =
     (case function_call m of
        Some (Parsed args) \<Rightarrow>
          (case call_order_pizza args of
             Inr r \<Rightarrow> res_order r # placed_orders es
           | Inl _ \<Rightarrow> placed_orders es)
      | _ \<Rightarrow> placed_orders es)"
| "placed_orders (_ # es) = placed_orders es"

text \<open>The running total is the sum of the prices of the recorded orders.\<close>

definition totals_agree :: "session \<Rightarrow> bool" where
  "totals_agree s = (running_total s = sum_list (map order_price (orders s)))"

section \<open>Properties of the pricing function\<close>

text \<open>Rounding to two decimals changes no price the function computes.\<close>


lemma round_half_even_of_int: "round_half_even (of_int n) = n"
  by (simp add: round_half_even_def)

lemma quarter_hundred:
  "(of_int b + 3 / 4 * of_nat nt + 1 / 2 * of_nat ns) * (100::rat)
     = of_int (100 * b + 75 * int nt + 50 * int ns)"
  by (simp add: algebra_simps)

lemma py_round2_quarters:
  "py_round2 (of_int b + 3 / 4 * of_nat nt + 1 / 2 * of_nat ns)
     = of_int b + 3 / 4 * of_nat nt + 1 / 2 * of_nat ns"
proof -
  have "py_round2 (of_int b + 3 / 4 * of_nat nt + 1 / 2 * of_nat ns)
          = of_int (100 * b + 75 * int nt + 50 * int ns) / 100"
    unfolding py_round2_def quarter_hundred round_half_even_of_int ..
  also have "\<dots> = of_int b + 3 / 4 * of_nat nt + 1 / 2 * of_nat ns"
    by (simp add: field_simps)
  finally show ?thesis .
qed

lemma order_pizza_typed:
  "order_pizza (PStr sz) (PStr crust) (PList (map PStr tops)) (PList (map PStr sauces))
     = Inr \<lparr>res_status = ''success'',
            res_order = \<lparr>order_size = PStr sz, order_crust = PStr crust,
                         order_toppings = PList (map PStr tops),
                         order_sauces = PList (map PStr sauces),
                         order_price = py_round2 (of_int (base_price_get (lower sz))
                                         + 3 / 4 * of_nat (length tops)
                                         + 1 / 2 * of_nat (length sauces))\<rparr>,
            res_eta = ''20 minutes''\<rparr>"
  by (simp add: order_pizza_def)

lemma base_price_get_cases:
  "base_price_get k =
     (if k = ''small'' then 5 else if k = ''medium'' then 7 else if k = ''large'' then 9
      else if k = ''extra large'' then 11 else 7)"
  by (simp add: base_price_get_def base_price_def)


text \<open>
  Claim C1. For every size string, crust string, list of topping strings and list of sauce
  strings the pricing function returns status "success", ETA "20 minutes" and an order
  whose price is the base price of the size plus 0.75 per topping plus 0.5 per sauce,
  rounded to two decimals; the base price is looked up by the lower-cased size in
  small 5, medium 7, large 9, extra large 11 and is 7 for any other size. In particular a
  size that is one of the four names in any letter case, with no toppings and no sauces,
  costs 5, 7, 9 and 11.
\<close>

theorem order_pizza_price:
  "order_pizza (PStr sz) (PStr crust) (PList (map PStr tops)) (PList (map PStr sauces))
     = Inr \<lparr>res_status = ''success'',
            res_order = \<lparr>order_size = PStr sz, order_crust = PStr crust,
                         order_toppings = PList (map PStr tops),
                         order_sauces = PList (map PStr sauces),
                         order_price =
                           py_round2
                             (of_int (if lower sz = ''small'' then 5
                                      else if lower sz = ''medium'' then 7
                                      else if lower sz = ''large'' then 9
                                      else if lower sz = ''extra large'' then 11
                                      else 7)
                              + 3 / 4 * of_nat (length tops)
                              + 1 / 2 * of_nat (length sauces))\<rparr>,
            res_eta = ''20 minutes''\<rparr>
   \<and> (lower sz = ''small'' \<longrightarrow>
        order_pizza (PStr sz) (PStr crust) (PList []) (PList [])
          = Inr \<lparr>res_status = ''success'',
                 res_order = \<lparr>order_size = PStr sz, order_crust = PStr crust,
                              order_toppings = PList [], order_sauces = PList [],
                              order_price = 5\<rparr>,
                 res_eta = ''20 minutes''\<rparr>)
   \<and> (lower sz = ''medium'' \<longrightarrow>
        order_pizza (PStr sz) (PStr crust) (PList []) (PList [])
          = Inr \<lparr>res_status = ''success'',
                 res_order = \<lparr>order_size = PStr sz, order_crust = PStr crust,
                              order_toppings = PList [], order_sauces = PList [],
                              order_price = 7\<rparr>,
                 res_eta = ''20 minutes''\<rparr>)
   \<and> (lower sz = ''large'' \<longrightarrow>
        order_pizza (PStr sz) (PStr crust) (PList []) (PList [])
          = Inr \<lparr>res_status = ''success'',
                 res_order = \<lparr>order_size = PStr sz, order_crust = PStr crust,
                              order_toppings = PList [], order_sauces = PList [],
                              order_price = 9\<rparr>,
                 res_eta = ''20 minutes''\<rparr>)
   \<and> (lower sz = ''extra large'' \<longrightarrow>
        order_pizza (PStr sz) (PStr crust) (PList []) (PList [])
          = Inr \<lparr>res_status = ''success'',
                 res_order = \<lparr>order_size = PStr sz, order_crust = PStr crust,
                              order_toppings = PList [], order_sauces = PList [],
                              order_price = 11\<rparr>,
                 res_eta = ''20 minutes''\<rparr>)"
proof -
  have empty: "order_pizza (PStr sz) (PStr crust) (PList []) (PList [])
     = Inr \<lparr>res_status = ''success'',
            res_order = \<lparr>order_size = PStr sz, order_crust = PStr crust,
                         order_toppings = PList [], order_sauces = PList [],
                         order_price = of_int (base_price_get (lower sz))\<rparr>,
            res_eta = ''20 minutes''\<rparr>"
    using order_pizza_typed [of sz crust "[]" "[]"]
          py_round2_quarters [of "base_price_get (lower sz)" 0 0]
    by simp
  show ?thesis
    unfolding empty order_pizza_typed base_price_get_cases by simp
qed

text \<open>The four known sizes in mixed letter case.\<close>

theorem order_pizza_price_witness:
  "lower ''SmAlL'' = ''small''
   \<and> order_pizza (PStr ''SmAlL'') (PStr ''thin'') (PList []) (PList [])
       = Inr \<lparr>res_status = ''success'',
              res_order = \<lparr>order_size = PStr ''SmAlL'', order_crust = PStr ''thin'',
                           order_toppings = PList [], order_sauces = PList [],
                           order_price = 5\<rparr>,
              res_eta = ''20 minutes''\<rparr>
   \<and> lower ''MEDIUM'' = ''medium''
   \<and> order_pizza (PStr ''MEDIUM'') (PStr ''thin'') (PList []) (PList [])
       = Inr \<lparr>res_status = ''success'',
              res_order = \<lparr>order_size = PStr ''MEDIUM'', order_crust = PStr ''thin'',
                           order_toppings = PList [], order_sauces = PList [],
                           order_price = 7\<rparr>,
              res_eta = ''20 minutes''\<rparr>
   \<and> lower ''Large'' = ''large''
   \<and> order_pizza (PStr ''Large'') (PStr ''deep dish'') (PList []) (PList [])
       = Inr \<lparr>res_status = ''success'',
              res_order = \<lparr>order_size = PStr ''Large'', order_crust = PStr ''deep dish'',
                           order_toppings = PList [], order_sauces = PList [],
                           order_price = 9\<rparr>,
              res_eta = ''20 minutes''\<rparr>
   \<and> lower ''Extra LARGE'' = ''extra large''
   \<and> order_pizza (PStr ''Extra LARGE'') (PStr ''thin'') (PList []) (PList [])
       = Inr \<lparr>res_status = ''success'',
              res_order = \<lparr>order_size = PStr ''Extra LARGE'', order_crust = PStr ''thin'',
                           order_toppings = PList [], order_sauces = PList [],
                           order_price = 11\<rparr>,
              res_eta = ''20 minutes''\<rparr>"
proof -
  have s: "lower ''SmAlL'' = ''small''" by code_simp
  have m: "lower ''MEDIUM'' = ''medium''" by code_simp
  have l: "lower ''Large'' = ''large''" by code_simp
  have x: "lower ''Extra LARGE'' = ''extra large''" by code_simp
  show ?thesis
    using s m l x
      order_pizza_price [of "''SmAlL''" "''thin''" "[]" "[]", THEN conjunct2]
      order_pizza_price [of "''MEDIUM''" "''thin''" "[]" "[]", THEN conjunct2]
      order_pizza_price [of "''Large''" "''deep dish''" "[]" "[]", THEN conjunct2]
      order_pizza_price [of "''Extra LARGE''" "''thin''" "[]" "[]", THEN conjunct2]
    by simp
qed

text \<open>The state-passing form returns the value of \<open>order_pizza\<close> and the state unchanged.\<close>

lemma order_pizza_call_value:
  "order_pizza_call w sz crust tops sauces = (order_pizza sz crust tops sauces, w)"
  by (simp add: order_pizza_call_def order_pizza_def Let_def split: sum.splits)

text \<open>
  Claim C8. The pricing function is total, pure and idempotent. For every size string,
  crust string, list of topping strings and list of sauce strings there is one result
  that the call returns in every state of the module variables and the console: it raises
  nothing, it hands the state back unchanged (no side effect), and the result is the same
  whatever the state, in particular for a second call with the same arguments made in the
  state the first call left.
\<close>

theorem order_pizza_pure_total:
  "\<exists>r. \<forall>w.
      order_pizza_call w (PStr sz) (PStr crust) (PList (map PStr tops)) (PList (map PStr sauces))
        = (Inr r, w)
      \<and> order_pizza_call
          (snd (order_pizza_call w (PStr sz) (PStr crust) (PList (map PStr tops))
                  (PList (map PStr sauces))))
          (PStr sz) (PStr crust) (PList (map PStr tops)) (PList (map PStr sauces))
        = (Inr r, w)"
  by (simp add: order_pizza_call_value order_pizza_typed)

text \<open>
  Claim C9. With size and crust fixed, the price does not decrease when toppings or
  sauces are added: any topping list and sauce list at least as long as the old ones
  (which covers adding elements at any position) give a price at least as high.
\<close>

theorem order_pizza_monotone:
  "length tops \<le> length tops' \<Longrightarrow> length sauces \<le> length sauces' \<Longrightarrow>
   \<exists>r r'. order_pizza (PStr sz) (PStr crust) (PList (map PStr tops)) (PList (map PStr sauces))
             = Inr r
         \<and> order_pizza (PStr sz) (PStr crust) (PList (map PStr tops')) (PList (map PStr sauces'))
             = Inr r'
         \<and> order_price (res_order r) \<le> order_price (res_order r')"
  unfolding order_pizza_typed py_round2_quarters by simp

text \<open>One topping and one sauce added to a small pizza.\<close>

theorem order_pizza_monotone_witness:
  "length [''ham''] \<le> length [''ham'', ''olives'']
   \<and> length ([] :: string list) \<le> length [''pesto'']
   \<and> (\<exists>r r'. order_pizza (PStr ''small'') (PStr ''thin'') (PList (map PStr [''ham'']))
                 (PList (map PStr [])) = Inr r
             \<and> order_pizza (PStr ''small'') (PStr ''thin'')
                 (PList (map PStr [''ham'', ''olives''])) (PList (map PStr [''pesto''])) = Inr r'
             \<and> order_price (res_order r) \<le> order_price (res_order r'))"
proof -
  have t: "length [''ham''] \<le> length [''ham'', ''olives'']" by simp
  have u: "length ([] :: string list) \<le> length [''pesto'']" by simp
  show ?thesis
    using t u order_pizza_monotone [OF t u, of "''small''" "''thin''"] by blast
qed

section \<open>Properties of the session\<close>

lemma run_append:
  "run s (xs @ ys) = (case run s xs of None \<Rightarrow> None | Some s' \<Rightarrow> run s' ys)"
  by (induction xs arbitrary: s) (auto split: option.splits)

lemma step_terminal:
  "pc s \<in> {SessionEnd, Returned} \<union> range Raised \<Longrightarrow> step s e = None"
  by (cases e) auto

lemma run_terminal:
  "pc s \<in> {SessionEnd, Returned} \<union> range Raised \<Longrightarrow>
   run s evs = (if evs = [] then Some s else None)"
  by (cases evs) (simp_all add: step_terminal)

lemma placed_orders_Cons:
  "placed_orders (e # es) = placed_orders [e] @ placed_orders es"
  by (cases e) (auto split: option.splits loads.splits sum.splits)

lemma step_orders:
  assumes "step s e = Some s'" and "pc s \<in> {AskName, ExtractName} \<longrightarrow> orders s = []"
  shows "orders s' = orders s @ placed_orders [e]
         \<and> (pc s' \<in> {AskName, ExtractName} \<longrightarrow> orders s' = [])"
proof (cases e)
  case (Line l)
  with assms show ?thesis
    by (cases "pc s") (auto simp: Let_def split: if_splits)
next
  case Eof
  with assms show ?thesis by (auto split: if_splits)
next
  case (ApiError x)
  with assms show ?thesis
    by (cases "pc s") (auto simp: extract_failed_def settle_name_def start_order_loop_def)
next
  case (NameReply c)
  with assms show ?thesis
    by (cases "pc s"; cases c)
       (auto simp: extract_failed_def extract_returned_def settle_name_def
                   start_order_loop_def)
next
  case (Reply m)
  with assms show ?thesis
    by (cases "pc s")
       (auto simp: handle_reply_def show_text_def record_order_def Let_def
             split: option.splits loads.splits sum.splits)
qed

lemma run_orders:
  "run s evs = Some s' \<Longrightarrow> (pc s \<in> {AskName, ExtractName} \<longrightarrow> orders s = []) \<Longrightarrow>
   orders s' = orders s @ placed_orders evs"
proof (induction evs arbitrary: s)
  case Nil
  then show ?case by simp
next
  case (Cons e es)
  from Cons.prems(1) obtain s1 where s1: "step s e = Some s1" and r: "run s1 es = Some s'"
    by (auto split: option.splits)
  have a: "orders s1 = orders s @ placed_orders [e]"
    using step_orders [OF s1 Cons.prems(2)] by (rule conjunct1)
  have b: "pc s1 \<in> {AskName, ExtractName} \<longrightarrow> orders s1 = []"
    using step_orders [OF s1 Cons.prems(2)] by (rule conjunct2)
  from Cons.IH [OF r b] a show ?case
    by (simp add: placed_orders_Cons [of e es])
qed


lemma step_totals:
  assumes "step s e = Some s'" and "totals_agree s"
  shows "totals_agree s'"
proof (cases e)
  case (Line l)
  with assms show ?thesis
    by (cases "pc s") (auto simp: totals_agree_def Let_def split: if_splits)
next
  case Eof
  with assms show ?thesis by (auto simp: totals_agree_def split: if_splits)
next
  case (ApiError x)
  with assms show ?thesis
    by (cases "pc s") (auto simp: totals_agree_def extract_failed_def settle_name_def start_order_loop_def)
next
  case (NameReply c)
  with assms show ?thesis
    by (cases "pc s"; cases c)
       (auto simp: totals_agree_def extract_failed_def extract_returned_def
                   settle_name_def start_order_loop_def)
next
  case (Reply m)
  with assms show ?thesis
    by (cases "pc s")
       (auto simp: totals_agree_def handle_reply_def show_text_def record_order_def Let_def
             split: option.splits loads.splits sum.splits)
qed

lemma run_totals:
  "run s evs = Some s' \<Longrightarrow> totals_agree s \<Longrightarrow> totals_agree s'"
  by (induction evs arbitrary: s) (auto split: option.splits dest: step_totals)

lemma main_init_totals: "totals_agree main_init"
  by (simp add: totals_agree_def main_init_def)

lemma dict_get_None: "dict_get kvs k = None \<longleftrightarrow> k \<notin> set (map fst kvs)"
  by (simp add: dict_get_def map_of_eq_None_iff)

lemma call_bad_keys:
  assumes "set (map fst kvs) \<noteq> set params"
  shows "call_order_pizza (PDict kvs) = Inl TypeError"
proof (cases "list_all (\<lambda>k. k \<in> set params) (map fst kvs)")
  case False
  then show ?thesis by (simp add: call_order_pizza_def)
next
  case True
  then have "set (map fst kvs) \<subseteq> set params" by (auto simp: list_all_iff)
  with assms obtain k where k: "k \<in> set params" "k \<notin> set (map fst kvs)" by blast
  then have "dict_get kvs k = None" by (simp add: dict_get_None)
  with k(1) show ?thesis
    by (auto simp: call_order_pizza_def params_def split: option.splits)
qed

text \<open>
  Claim C2. At every point of a session the running total is the exact sum of the prices
  of the orders recorded so far, and the list of orders is exactly the orders that were
  placed successfully, in the order they were placed (\<open>placed_orders\<close> reads them off
  the replies); every step of the session, whichever event it handles, keeps the total
  equal to the sum.
\<close>

theorem session_totals:
  "(run main_init evs = Some s \<longrightarrow>
      running_total s = sum_list (map order_price (orders s))
      \<and> orders s = placed_orders evs)
   \<and> (step t e = Some t' \<and> running_total t = sum_list (map order_price (orders t)) \<longrightarrow>
      running_total t' = sum_list (map order_price (orders t')))"
proof (intro conjI impI)
  assume r: "run main_init evs = Some s"
  from run_totals [OF r main_init_totals]
  show "running_total s = sum_list (map order_price (orders s))"
    by (simp add: totals_agree_def)
  have "orders main_init = []" by (simp add: main_init_def)
  with run_orders [OF r] show "orders s = placed_orders evs" by simp
next
  assume "step t e = Some t' \<and> running_total t = sum_list (map order_price (orders t))"
  then show "running_total t' = sum_list (map order_price (orders t'))"
    using step_totals [of t e t'] by (simp add: totals_agree_def)
qed

text \<open>A session that places a large pizza with ham and a small one with pesto.\<close>

theorem session_totals_witness:
  "(\<exists>s. run main_init
          [Line ''Bob'', NameReply (Some ''Bob''), Line ''a large ham pizza'',
           Reply \<lparr>content = None, function_call = Some (Parsed (PDict
             [(''size'', PStr ''Large''), (''crust'', PStr ''thin''),
              (''toppings'', PList [PStr ''ham'']), (''sauces'', PList [])]))\<rparr>,
           Line ''yes'', Line ''and a small one'',
           Reply \<lparr>content = Some ''Sure'', function_call = Some (Parsed (PDict
             [(''size'', PStr ''small''), (''crust'', PStr ''thin''),
              (''toppings'', PList []), (''sauces'', PList [PStr ''pesto''])]))\<rparr>] = Some s
        \<and> running_total s = sum_list (map order_price (orders s))
        \<and> map order_price (orders s) = [39 / 4, 11 / 2])
   \<and> (\<exists>t'. step (main_init\<lparr>pc := Completion\<rparr>)
               (Reply \<lparr>content = None, function_call = Some (Parsed (PDict
                  [(''size'', PStr ''Large''), (''crust'', PStr ''thin''),
                   (''toppings'', PList [PStr ''ham'']), (''sauces'', PList [])]))\<rparr>) = Some t'
         \<and> running_total (main_init\<lparr>pc := Completion\<rparr>)
             = sum_list (map order_price (orders (main_init\<lparr>pc := Completion\<rparr>)))
         \<and> running_total t' = sum_list (map order_price (orders t'))
         \<and> running_total t' = 39 / 4)"
proof -
  let ?m1 = "\<lparr>content = None, function_call = Some (Parsed (PDict
             [(''size'', PStr ''Large''), (''crust'', PStr ''thin''),
              (''toppings'', PList [PStr ''ham'']), (''sauces'', PList [])]))\<rparr>"
  let ?evs = "[Line ''Bob'', NameReply (Some ''Bob''), Line ''a large ham pizza'',
           Reply ?m1,
           Line ''yes'', Line ''and a small one'',
           Reply \<lparr>content = Some ''Sure'', function_call = Some (Parsed (PDict
             [(''size'', PStr ''small''), (''crust'', PStr ''thin''),
              (''toppings'', PList []), (''sauces'', PList [PStr ''pesto''])]))\<rparr>]"
  let ?t = "main_init\<lparr>pc := Completion\<rparr>"
  have "run main_init ?evs \<noteq> None" by code_simp
  then obtain s where s: "run main_init ?evs = Some s" by (rule not_None_eq [THEN iffD1, THEN exE])
  have "map_option (\<lambda>s. map order_price (orders s)) (run main_init ?evs) = Some [39 / 4, 11 / 2]"
    by code_simp
  then have p: "map order_price (orders s) = [39 / 4, 11 / 2]" unfolding s by simp
  have a: "running_total s = sum_list (map order_price (orders s))"
    by (rule session_totals [THEN conjunct1, THEN mp, OF s, THEN conjunct1])
  have "step ?t (Reply ?m1) \<noteq> None" by code_simp
  then obtain t' where t': "step ?t (Reply ?m1) = Some t'"
    by (rule not_None_eq [THEN iffD1, THEN exE])
  have i: "running_total ?t = sum_list (map order_price (orders ?t))"
    by (simp add: main_init_def)
  have "map_option running_total (step ?t (Reply ?m1)) = Some (39 / 4)" by code_simp
  then have q: "running_total t' = 39 / 4" unfolding t' by simp
  have b: "running_total t' = sum_list (map order_price (orders t'))"
    by (rule session_totals [THEN conjunct2, THEN mp, OF conjI [OF t' i]])
  show ?thesis
  proof (rule conjI)
    show "\<exists>s. run main_init ?evs = Some s
        \<and> running_total s = sum_list (map order_price (orders s))
        \<and> map order_price (orders s) = [39 / 4, 11 / 2]"
      by (rule exI [of _ s]) (intro conjI s a p)
    show "\<exists>t'. step ?t (Reply ?m1) = Some t'
         \<and> running_total ?t = sum_list (map order_price (orders ?t))
         \<and> running_total t' = sum_list (map order_price (orders t'))
         \<and> running_total t' = 39 / 4"
      by (rule exI [of _ t']) (intro conjI t' i b q)
  qed
qed

text \<open>
  When \<^verbatim>\<open>json.loads\<close> raises \<^verbatim>\<open>JSONDecodeError\<close>, the failure is reported on the
  console and the negotiation loop is left without an order: the order list and the total
  are unchanged, the transcript gains nothing from the call (only the assistant text of the
  same reply, if it has any), and the session goes on to the "order another?" prompt, where
  it accepts the next line.
\<close>

lemma decode_error_abandons:
  "pc s = Completion \<Longrightarrow> function_call m = Some JSONDecodeError \<Longrightarrow>
   \<exists>s'. step s (Reply m) = Some s'
      \<and> orders s' = orders s
      \<and> running_total s' = running_total s
      \<and> messages s' = messages s @ (case content m of
                                       Some c \<Rightarrow> if c \<noteq> [] then [AssistantMsg c] else []
                                     | None \<Rightarrow> [])
      \<and> console s' = console s @ (case content m of
                                     Some c \<Rightarrow> if c \<noteq> [] then [AiText c] else []
                                   | None \<Rightarrow> []) @ [ParseFailed]
      \<and> pc s' = AskAnother
      \<and> (\<forall>l. step s' (Line l) \<noteq> None)"
  by (simp add: handle_reply_def show_text_def Let_def split: option.splits)

text \<open>
  Claim C3. Arguments that fail to parse are meant to be reported and the order attempt
  abandoned, the session going on. That is what happens when the failure is a
  \<^verbatim>\<open>JSONDecodeError\<close>: the session arrives at the "order another?" prompt. But line 146
  catches that exception only. Arguments on which \<^verbatim>\<open>json.loads\<close> fails with
  \<^verbatim>\<open>RecursionError\<close> or with a plain \<^verbatim>\<open>ValueError\<close> end \<^verbatim>\<open>main\<close> with that
  exception: nothing is reported, and the session does not go on.
\<close>

theorem parse_error_uncaught:
  "map_option pc (run main_init
      [Line ''Bob'', NameReply (Some ''Bob''), Line ''hi'',
       Reply \<lparr>content = None, function_call = Some JSONDecodeError\<rparr>]) = Some AskAnother
   \<and> map_option (\<lambda>s. (pc s, console s)) (run main_init
      [Line ''Bob'', NameReply (Some ''Bob''), Line ''hi'',
       Reply \<lparr>content = None, function_call = Some (LoadsRaised RecursionError)\<rparr>])
       = Some (Raised RecursionError, [Welcome, Hi ''Bob''])
   \<and> map_option (\<lambda>s. (pc s, console s)) (run main_init
      [Line ''Bob'', NameReply (Some ''Bob''), Line ''hi'',
       Reply \<lparr>content = None, function_call = Some (LoadsRaised ValueError)\<rparr>])
       = Some (Raised ValueError, [Welcome, Hi ''Bob''])
   \<and> run main_init
      [Line ''Bob'', NameReply (Some ''Bob''), Line ''hi'',
       Reply \<lparr>content = None, function_call = Some (LoadsRaised RecursionError)\<rparr>,
       Line ''yes''] = None"
  by code_simp

text \<open>
  Claim C4. An error raised by the completion request of the negotiation ends the whole
  session: the error is printed and \<^verbatim>\<open>main\<close> returns at once. Nothing but the console
  changes, no event is accepted afterwards, and the session never arrives at the summary.
\<close>

theorem api_error_fatal:
  "pc s = Completion \<Longrightarrow>
   step s (ApiError e) = Some (s\<lparr>console := console s @ [ChatError e], pc := Returned\<rparr>)
   \<and> (\<forall>evs. run (s\<lparr>console := console s @ [ChatError e], pc := Returned\<rparr>) evs
             = (if evs = [] then Some (s\<lparr>console := console s @ [ChatError e], pc := Returned\<rparr>)
                else None))
   \<and> (\<forall>evs s'. run (s\<lparr>console := console s @ [ChatError e], pc := Returned\<rparr>) evs = Some s'
          \<longrightarrow> pc s' \<noteq> SessionEnd)"
  by (auto simp: run_terminal split: if_splits)

text \<open>A timeout at the first completion request.\<close>

theorem api_error_fatal_witness:
  "pc (main_init\<lparr>pc := Completion\<rparr>) = Completion
   \<and> step (main_init\<lparr>pc := Completion\<rparr>) (ApiError ''timeout'')
       = Some (main_init\<lparr>console := [Welcome, ChatError ''timeout''], pc := Returned\<rparr>)
   \<and> run (main_init\<lparr>console := [Welcome, ChatError ''timeout''], pc := Returned\<rparr>)
          [Line ''yes''] = None
   \<and> run (main_init\<lparr>console := [Welcome, ChatError ''timeout''], pc := Returned\<rparr>) []
       = Some (main_init\<lparr>console := [Welcome, ChatError ''timeout''], pc := Returned\<rparr>)
   \<and> pc (main_init\<lparr>console := [Welcome, ChatError ''timeout''], pc := Returned\<rparr>)
       \<noteq> SessionEnd"
proof -
  let ?s = "main_init\<lparr>pc := Completion\<rparr>"
  have a: "pc ?s = Completion" by simp
  have c: "console ?s = [Welcome]" by (simp add: main_init_def)
  have u: "?s\<lparr>console := console ?s @ [ChatError ''timeout''], pc := Returned\<rparr>
           = main_init\<lparr>console := [Welcome, ChatError ''timeout''], pc := Returned\<rparr>"
    by (simp add: main_init_def)
  note w = api_error_fatal [OF a, of "''timeout''", unfolded u]
  have r: "run (main_init\<lparr>console := [Welcome, ChatError ''timeout''], pc := Returned\<rparr>)
             [Line ''yes''] = None"
    using w [THEN conjunct2, THEN conjunct1, rule_format, of "[Line ''yes'']"] by simp
  have e: "run (main_init\<lparr>console := [Welcome, ChatError ''timeout''], pc := Returned\<rparr>) []
       = Some (main_init\<lparr>console := [Welcome, ChatError ''timeout''], pc := Returned\<rparr>)"
    by simp
  have n: "pc (main_init\<lparr>console := [Welcome, ChatError ''timeout''], pc := Returned\<rparr>)
             \<noteq> SessionEnd"
    by (rule w [THEN conjunct2, THEN conjunct2, rule_format, OF e])
  show ?thesis by (intro conjI a r e n w [THEN conjunct1])
qed

text \<open>
  Claim C10. When the arguments parse to a JSON object whose keys are not exactly size,
  crust, toppings and sauces (one is missing, or there is another key), the call at line
  149 raises \<^verbatim>\<open>TypeError\<close>; nothing catches it, so the session ends there: no order
  is recorded, no event is accepted afterwards and the summary is never reached.
\<close>

theorem bad_arguments_crash:
  "pc s = Completion \<Longrightarrow> function_call m = Some (Parsed (PDict kvs)) \<Longrightarrow>
   set (map fst kvs) \<noteq> {''size'', ''crust'', ''toppings'', ''sauces''} \<Longrightarrow>
   step s (Reply m) = Some ((show_text m s)\<lparr>pc := Raised TypeError\<rparr>)
   \<and> orders ((show_text m s)\<lparr>pc := Raised TypeError\<rparr>) = orders s
   \<and> running_total ((show_text m s)\<lparr>pc := Raised TypeError\<rparr>) = running_total s
   \<and> (\<forall>evs. run ((show_text m s)\<lparr>pc := Raised TypeError\<rparr>) evs
              = (if evs = [] then Some ((show_text m s)\<lparr>pc := Raised TypeError\<rparr>) else None))"
proof -
  assume a: "pc s = Completion" and b: "function_call m = Some (Parsed (PDict kvs))"
    and c: "set (map fst kvs) \<noteq> {''size'', ''crust'', ''toppings'', ''sauces''}"
  from c have "set (map fst kvs) \<noteq> set params" by (simp add: params_def)
  then have d: "call_order_pizza (PDict kvs) = Inl TypeError" by (rule call_bad_keys)
  let ?s' = "(show_text m s)\<lparr>pc := Raised TypeError\<rparr>"
  have e: "step s (Reply m) = Some ?s'"
    using a b d by (simp add: handle_reply_def Let_def)
  have f: "orders ?s' = orders s"
    by (simp add: show_text_def split: option.splits)
  have f': "running_total ?s' = running_total s"
    by (simp add: show_text_def split: option.splits)
  have g: "\<forall>evs. run ?s' evs = (if evs = [] then Some ?s' else None)"
    by (simp add: run_terminal)
  show ?thesis by (intro conjI e f f' g)
qed

text \<open>Arguments without sauces, and arguments with an extra key.\<close>

theorem bad_arguments_crash_witness:
  "pc (main_init\<lparr>pc := Completion\<rparr>) = Completion
   \<and> set (map fst [(''size'', PStr ''large''), (''crust'', PStr ''thin''),
                    (''toppings'', PList [])])
       \<noteq> {''size'', ''crust'', ''toppings'', ''sauces''}
   \<and> step (main_init\<lparr>pc := Completion\<rparr>)
        (Reply \<lparr>content = None, function_call = Some (Parsed (PDict
           [(''size'', PStr ''large''), (''crust'', PStr ''thin''),
            (''toppings'', PList [])]))\<rparr>)
       = Some (main_init\<lparr>pc := Raised TypeError\<rparr>)
   \<and> run (main_init\<lparr>pc := Raised TypeError\<rparr>) [Line ''no''] = None
   \<and> set (map fst [(''size'', PStr ''large''), (''crust'', PStr ''thin''),
                    (''toppings'', PList []), (''sauces'', PList []),
                    (''notes'', PStr ''well done'')])
       \<noteq> {''size'', ''crust'', ''toppings'', ''sauces''}
   \<and> step (main_init\<lparr>pc := Completion\<rparr>)
        (Reply \<lparr>content = None, function_call = Some (Parsed (PDict
           [(''size'', PStr ''large''), (''crust'', PStr ''thin''),
            (''toppings'', PList []), (''sauces'', PList []),
            (''notes'', PStr ''well done'')]))\<rparr>)
       = Some (main_init\<lparr>pc := Raised TypeError\<rparr>)"
proof -
  let ?s = "main_init\<lparr>pc := Completion\<rparr>"
  let ?k1 = "[(''size'', PStr ''large''), (''crust'', PStr ''thin''), (''toppings'', PList [])]"
  let ?k2 = "[(''size'', PStr ''large''), (''crust'', PStr ''thin''),
              (''toppings'', PList []), (''sauces'', PList []),
              (''notes'', PStr ''well done'')]"
  let ?m1 = "\<lparr>content = None, function_call = Some (Parsed (PDict ?k1))\<rparr>"
  let ?m2 = "\<lparr>content = None, function_call = Some (Parsed (PDict ?k2))\<rparr>"
  have a: "pc ?s = Completion" by simp
  have b1: "function_call ?m1 = Some (Parsed (PDict ?k1))" by simp
  have b2: "function_call ?m2 = Some (Parsed (PDict ?k2))" by simp
  have c1: "set (map fst ?k1) \<noteq> {''size'', ''crust'', ''toppings'', ''sauces''}"
  proof
    assume h: "set (map fst ?k1) = {''size'', ''crust'', ''toppings'', ''sauces''}"
    have "''sauces'' \<in> {''size'', ''crust'', ''toppings'', ''sauces''}" by simp
    then have "''sauces'' \<in> set (map fst ?k1)" unfolding h .
    then show False by simp
  qed
  have c2: "set (map fst ?k2) \<noteq> {''size'', ''crust'', ''toppings'', ''sauces''}"
  proof
    assume h: "set (map fst ?k2) = {''size'', ''crust'', ''toppings'', ''sauces''}"
    have "''notes'' \<in> set (map fst ?k2)" by simp
    then have "''notes'' \<in> {''size'', ''crust'', ''toppings'', ''sauces''}" unfolding h .
    then show False by simp
  qed
  have t1: "(show_text ?m1 ?s)\<lparr>pc := Raised TypeError\<rparr> = main_init\<lparr>pc := Raised TypeError\<rparr>"
    by (simp add: show_text_def)
  have t2: "(show_text ?m2 ?s)\<lparr>pc := Raised TypeError\<rparr> = main_init\<lparr>pc := Raised TypeError\<rparr>"
    by (simp add: show_text_def)
  note w1 = bad_arguments_crash [OF a b1 c1, unfolded t1]
  note w2 = bad_arguments_crash [OF a b2 c2, unfolded t2]
  have r: "run (main_init\<lparr>pc := Raised TypeError\<rparr>) [Line ''no''] = None"
    using w1 [THEN conjunct2, THEN conjunct2, THEN conjunct2, rule_format, of "[Line ''no'']"]
    by simp
  show ?thesis
    by (intro conjI a c1 c2 r w1 [THEN conjunct1] w2 [THEN conjunct1])
qed

text \<open>
  Claim C5, amended. If the name-extraction request fails, the session does not stop: it
  goes on to the order loop with the typed line, stripped of leading and trailing
  whitespace (the source's \<^verbatim>\<open>raw_name_input\<close>), as the display name; the same name is
  taken when the extracted name is empty after stripping.
\<close>

theorem name_fallback:
  "strip l \<noteq> [] \<Longrightarrow>
   (\<exists>s'. run main_init [Line l, ApiError e] = Some s'
        \<and> name s' = strip l \<and> pc s' = OuterInput)
   \<and> (strip c = [] \<longrightarrow>
        (\<exists>s'. run main_init [Line l, NameReply (Some c)] = Some s'
             \<and> name s' = strip l \<and> pc s' = OuterInput))"
  by (simp add: main_init_def Let_def extract_failed_def extract_returned_def
                settle_name_def start_order_loop_def)

text \<open>A failed request and a blank reply, after a line with leading blanks.\<close>

theorem name_fallback_witness:
  "strip ''  Bob'' \<noteq> [] \<and> strip ''   '' = []
   \<and> (\<exists>s'. run main_init [Line ''  Bob'', ApiError ''timeout''] = Some s'
          \<and> name s' = ''Bob'' \<and> pc s' = OuterInput)
   \<and> (\<exists>s'. run main_init [Line ''  Bob'', NameReply (Some ''   '')] = Some s'
          \<and> name s' = ''Bob'' \<and> pc s' = OuterInput)"
proof -
  have a: "strip ''  Bob'' = ''Bob''" by code_simp
  have b: "strip ''   '' = []" by code_simp
  have c: "strip ''  Bob'' \<noteq> []" unfolding a by simp
  from name_fallback [OF c, of "''timeout''" "''   ''"] b show ?thesis
    unfolding a by simp
qed

text \<open>
  The typed line itself is not the name: line 92 strips it before anything else, so a line
  with leading blanks gives a name without them.
\<close>

theorem name_fallback_counterexample:
  "map_option name (run main_init [Line ''  Bob'', ApiError ''timeout'']) = Some ''Bob''
   \<and> ''Bob'' \<noteq> ''  Bob''"
  by code_simp

text \<open>
  Claim C6, amended. After an order is placed or abandoned, an answer to the
  "order another?" prompt that equals "yes" once stripped and lower-cased re-enters the
  order loop with the transcript (and every other part of the state) unchanged; every
  other answer ends the loop and leads to the summary.
\<close>

theorem order_another:
  "pc s = AskAnother \<Longrightarrow>
   step s (Line l)
     = Some (s\<lparr>pc := (if lower (strip l) = ''yes'' then OuterInput else SessionEnd)\<rparr>)"
  by (simp add: Let_def)

text \<open>The answers " Yes " and "no".\<close>

theorem order_another_witness:
  "pc (main_init\<lparr>pc := AskAnother\<rparr>) = AskAnother
   \<and> step (main_init\<lparr>pc := AskAnother\<rparr>) (Line '' Yes '') = Some (main_init\<lparr>pc := OuterInput\<rparr>)
   \<and> step (main_init\<lparr>pc := AskAnother\<rparr>) (Line ''no'') = Some (main_init\<lparr>pc := SessionEnd\<rparr>)"
proof -
  let ?s = "main_init\<lparr>pc := AskAnother\<rparr>"
  have a: "pc ?s = AskAnother" by simp
  have y: "lower (strip '' Yes '') = ''yes''" by code_simp
  have n: "lower (strip ''no'') = ''no''" by code_simp
  from order_another [OF a, of "'' Yes ''"] order_another [OF a, of "''no''"]
  show ?thesis unfolding y n by simp
qed

text \<open>
  The answer is not compared as typed: line 166 strips and lower-cases it, so the answer
  YES starts another pizza.
\<close>

theorem order_another_counterexample:
  "map_option pc (run main_init
      [Line ''Bob'', NameReply (Some ''Bob''), Line ''hi'',
       Reply \<lparr>content = None, function_call = Some JSONDecodeError\<rparr>, Line ''YES'']) = Some OuterInput
   \<and> ''YES'' \<noteq> ''yes''"
  by code_simp

text \<open>
  Claim C7. An empty line at the first prompt of the order loop (line 119) is dropped and
  the program asks again. An empty line at the prompt inside the negotiation loop
  (line 161) is dropped too, but \<^verbatim>\<open>continue\<close> there leads to the top of the inner loop,
  which is the completion request of line 126: the program does not ask again, it sends
  the unchanged transcript to the model once more.
\<close>

theorem empty_line_inner_loop:
  "map_option pc (run main_init
      [Line ''Bob'', NameReply (Some ''Bob''), Line '''']) = Some OuterInput
   \<and> map_option pc (run main_init
      [Line ''Bob'', NameReply (Some ''Bob''), Line ''hi'',
       Reply \<lparr>content = Some ''What size?'', function_call = None\<rparr>]) = Some InnerInput
   \<and> map_option pc (run main_init
      [Line ''Bob'', NameReply (Some ''Bob''), Line ''hi'',
       Reply \<lparr>content = Some ''What size?'', function_call = None\<rparr>, Line '''']) = Some Completion"
  by code_simp

end
